theory Spec2Isabelle
  imports Main
begin

section \<open>The blog application of \<^verbatim>\<open>main.py\<close>\<close>

text \<open>
  The program is a Flask application over three SQLAlchemy tables. Each request handler
  is modelled as a function from the state the request finds (the tables, the login
  session, the flashed messages, the mail handed to the relay) to a response and the state
  it leaves. What the handler reads from outside is an argument: the submitted form (the
  outcome of \<^verbatim>\<open>form.validate_on_submit()\<close>: \<open>None\<close> when nothing valid was
  submitted, \<open>Some\<close> of the field data otherwise; \<^verbatim>\<open>forms.py\<close> is not part of the
  source), the clock, the randomness of the salt and the two functions of
  \<^verbatim>\<open>werkzeug.security\<close>.

  The tables follow the engine the source configures by default,
  \<^verbatim>\<open>sqlite:///blog.db\<close>: primary keys are assigned as the largest key plus one, the
  \<^verbatim>\<open>unique=True\<close> columns are enforced at commit (\<^verbatim>\<open>IntegrityError\<close>), and foreign
  keys are not enforced by the engine. A Python integer handed to a query is bound as an
  SQLite \<^verbatim>\<open>INTEGER\<close>, which has 64 bits: one beyond them makes the driver raise
  \<^verbatim>\<open>OverflowError\<close>. An exception that no handler catches ends the request
  (\<open>Unhandled\<close>) and leaves the state as the request found it.
\<close>

subsection \<open>Configuration: the database URL\<close>

definition startswith :: "string \<Rightarrow> string \<Rightarrow> bool" where
  "startswith s p = (take (length p) s = p)"

text \<open>\<^verbatim>\<open>s.replace(old, new, 1)\<close>: the leftmost occurrence of \<open>old\<close> is replaced.\<close>

fun replace_first :: "string \<Rightarrow> string \<Rightarrow> string \<Rightarrow> string" where
  "replace_first [] old new = (if old = [] then new else [])"
| "replace_first (c # cs) old new =
     (if startswith (c # cs) old then new @ drop (length old) (c # cs)
      else c # replace_first cs old new)"

text \<open>Lines 39 to 41: \<^verbatim>\<open>os.environ.get("DATABASE_URL", "sqlite:///blog.db")\<close>, then the
  rewriting of the legacy scheme.\<close>

definition heroku_url :: "(string \<rightharpoonup> string) \<Rightarrow> string" where
  "heroku_url environ =
     (let url = (case environ ''DATABASE_URL'' of None \<Rightarrow> ''sqlite:///blog.db'' | Some v \<Rightarrow> v)
      in if startswith url ''postgres://''
         then replace_first url ''postgres://'' ''postgresql://''
         else url)"

definition admin_id :: int where
  "admin_id = 1"

subsection \<open>The tables\<close>

text \<open>
  The columns of \<^verbatim>\<open>User\<close>, \<^verbatim>\<open>BlogPost\<close> and \<^verbatim>\<open>Comment\<close>, prefixed by the table
  (\<open>u_\<close>, \<open>p_\<close>, \<open>c_\<close>) since the three classes share column names. The foreign key
  columns are nullable in the source, hence \<open>int option\<close>.
\<close>

record user =
  u_id :: int
  u_email :: string
  u_password :: string
  u_name :: string

record blog_post =
  p_id :: int
  p_author_id :: "int option"
  p_title :: string
  p_subtitle :: string
  p_date :: string
  p_body :: string
  p_img_url :: string

record comment =
  c_id :: int
  c_author_id :: "int option"
  c_post_id :: "int option"
  c_text :: string
  c_date :: string
  c_time :: string

record db =
  users :: "user list"
  blog_posts :: "blog_post list"
  comments :: "comment list"

record world =
  database :: db
  session_user_id :: "int option"
  flashes :: "string list"
  outbox :: "string list"

datatype exn =
  UnmappedInstanceError | AttributeError | IntegrityError | IndexError | SMTPException
  | OverflowError

datatype page_context =
  No_context
  | Form_context
  | All_posts "blog_post list"
  | Post "blog_post option"
  | Heading string

datatype response =
  Render_template string page_context
  | Redirect string "int option"
  | Abort nat
  | Unhandled exn

subsection \<open>Queries and commits\<close>

definition next_id :: "int list \<Rightarrow> int" where
  "next_id ids = fold max ids 0 + 1"

text \<open>\<^verbatim>\<open>User.query.get\<close> is only called by \<^verbatim>\<open>load_user\<close>, on the id of the signed
  session, which \<^verbatim>\<open>login_user\<close> took from a stored row.\<close>

definition User_query_get :: "db \<Rightarrow> int \<Rightarrow> user option" where
  "User_query_get d uid = find (\<lambda>u. u_id u = uid) (users d)"

definition User_query_filter_by_email_first :: "db \<Rightarrow> string \<Rightarrow> user option" where
  "User_query_filter_by_email_first d e = find (\<lambda>u. u_email u = e) (users d)"

text \<open>The integers the driver binds as an SQLite \<^verbatim>\<open>INTEGER\<close>.\<close>

definition sqlite_integer :: "int \<Rightarrow> bool" where
  "sqlite_integer i = (- (2 ^ 63) \<le> i \<and> i < 2 ^ 63)"

text \<open>\<^verbatim>\<open>BlogPost.query.get(post_id)\<close>, with the post id as the route hands it over: the
  row with that key, \<open>None\<close> when there is none, and \<^verbatim>\<open>OverflowError\<close> for an id the
  driver cannot bind.\<close>

definition BlogPost_query_get :: "db \<Rightarrow> int \<Rightarrow> exn + blog_post option" where
  "BlogPost_query_get d pid =
     (if sqlite_integer pid then Inr (find (\<lambda>p. p_id p = pid) (blog_posts d))
      else Inl OverflowError)"

definition BlogPost_query_all :: "db \<Rightarrow> blog_post list" where
  "BlogPost_query_all d = blog_posts d"

text \<open>\<^verbatim>\<open>db.session.add(new_user); db.session.commit()\<close>: the row gets its key; a second
  row with the same \<^verbatim>\<open>email\<close> (\<^verbatim>\<open>unique=True\<close>) is refused.\<close>

definition add_user :: "db \<Rightarrow> string \<Rightarrow> string \<Rightarrow> string \<Rightarrow> exn + (user \<times> db)" where
  "add_user d e pw n =
     (if list_ex (\<lambda>u. u_email u = e) (users d) then Inl IntegrityError
      else let new_user = \<lparr>u_id = next_id (map u_id (users d)), u_email = e,
                            u_password = pw, u_name = n\<rparr>
           in Inr (new_user, d\<lparr>users := users d @ [new_user]\<rparr>))"

text \<open>The same for a post: \<^verbatim>\<open>title\<close> is \<^verbatim>\<open>unique=True\<close>.\<close>

definition add_post ::
  "db \<Rightarrow> int \<Rightarrow> string \<Rightarrow> string \<Rightarrow> string \<Rightarrow> string \<Rightarrow> string \<Rightarrow> exn + db" where
  "add_post d author t st b img dt =
     (if list_ex (\<lambda>p. p_title p = t) (blog_posts d) then Inl IntegrityError
      else Inr (d\<lparr>blog_posts := blog_posts d @
             [\<lparr>p_id = next_id (map p_id (blog_posts d)), p_author_id = Some author,
               p_title = t, p_subtitle = st, p_date = dt, p_body = b, p_img_url = img\<rparr>]\<rparr>))"

text \<open>A comment has no unique column: its commit always succeeds.\<close>

definition add_comment :: "db \<Rightarrow> int \<Rightarrow> int \<Rightarrow> string \<Rightarrow> string \<Rightarrow> string \<Rightarrow> db" where
  "add_comment d author pid txt dt tm =
     d\<lparr>comments := comments d @
        [\<lparr>c_id = next_id (map c_id (comments d)), c_author_id = Some author,
          c_post_id = Some pid, c_text = txt, c_date = dt, c_time = tm\<rparr>]\<rparr>"

text \<open>The four assignments of \<^verbatim>\<open>edit_post\<close> (lines 277 to 281) and the commit: the row
  with the key \<open>pid\<close> is rewritten, unless another row already has the new title.\<close>

definition update_post ::
  "db \<Rightarrow> int \<Rightarrow> string \<Rightarrow> string \<Rightarrow> string \<Rightarrow> string \<Rightarrow> exn + db" where
  "update_post d pid t st img b =
     (if list_ex (\<lambda>p. p_id p \<noteq> pid \<and> p_title p = t) (blog_posts d) then Inl IntegrityError
      else Inr (d\<lparr>blog_posts :=
             map (\<lambda>p. if p_id p = pid
                       then p\<lparr>p_title := t, p_subtitle := st, p_img_url := img, p_body := b\<rparr>
                       else p)
                 (blog_posts d)\<rparr>))"

text \<open>
  \<^verbatim>\<open>db.session.delete(post); db.session.commit()\<close>. The relationship
  \<^verbatim>\<open>BlogPost.comments\<close> is declared without a delete cascade, so the unit of work
  de-associates the children first: every comment of the post gets \<^verbatim>\<open>post_id = NULL\<close>
  (the column is nullable), then the post's row is deleted.
\<close>

definition session_delete_post :: "db \<Rightarrow> int \<Rightarrow> db" where
  "session_delete_post d pid =
     d\<lparr>comments := map (\<lambda>c. if c_post_id c = Some pid then c\<lparr>c_post_id := None\<rparr> else c)
                        (comments d),
       blog_posts := filter (\<lambda>p. p_id p \<noteq> pid) (blog_posts d)\<rparr>"

subsection \<open>The clock and its formatting\<close>

datatype month =
  January | February | March | April | May | June
  | July | August | September | October | November | December

record date =
  year :: nat
  month :: month
  day :: nat

record time_of_day =
  hour :: nat
  minute :: nat
  second :: nat

record clock =
  today :: date
  now :: time_of_day

definition digit :: "nat \<Rightarrow> char" where
  "digit n = ''0123456789'' ! (n mod 10)"

function decimal :: "nat \<Rightarrow> string" where
  "decimal n = (if n < 10 then [digit n] else decimal (n div 10) @ [digit n])"
  by pat_completeness auto
termination
  by (relation "measure (\<lambda>n. n)") auto

text \<open>\<^verbatim>\<open>%d\<close>, \<^verbatim>\<open>%H\<close>, \<^verbatim>\<open>%M\<close>, \<^verbatim>\<open>%S\<close>: a decimal number padded with a zero to two
  places.\<close>

definition pad2 :: "nat \<Rightarrow> string" where
  "pad2 n = (if n < 10 then CHR ''0'' # decimal n else decimal n)"

fun month_name :: "month \<Rightarrow> string" where
  "month_name January = ''January''"
| "month_name February = ''February''"
| "month_name March = ''March''"
| "month_name April = ''April''"
| "month_name May = ''May''"
| "month_name June = ''June''"
| "month_name July = ''July''"
| "month_name August = ''August''"
| "month_name September = ''September''"
| "month_name October = ''October''"
| "month_name November = ''November''"
| "month_name December = ''December''"

text \<open>\<^verbatim>\<open>strftime("%B %d, %Y")\<close> and \<^verbatim>\<open>strftime("%X")\<close>, in the C locale the process
  starts in (the source never sets another).\<close>

definition strftime_B_d_Y :: "date \<Rightarrow> string" where
  "strftime_B_d_Y d = month_name (month d) @ '' '' @ pad2 (day d) @ '', '' @ decimal (year d)"

definition strftime_X :: "time_of_day \<Rightarrow> string" where
  "strftime_X t = pad2 (hour t) @ '':'' @ pad2 (minute t) @ '':'' @ pad2 (second t)"

subsection \<open>Forms and the password functions\<close>

text \<open>The fields the handlers read from \<^verbatim>\<open>RegisterForm\<close>, \<^verbatim>\<open>LoginForm\<close>,
  \<^verbatim>\<open>CommentForm\<close>, \<^verbatim>\<open>ContactForm\<close> and \<^verbatim>\<open>CreatePostForm\<close>.\<close>

record register_form =
  reg_email :: string
  reg_password :: string
  reg_name :: string

record login_form =
  login_email :: string
  login_password :: string

record comment_form =
  comment_data :: string

record contact_form =
  contact_name :: string
  contact_email :: string
  contact_message :: string

record create_post_form =
  form_title :: string
  form_subtitle :: string
  form_img_url :: string
  form_body :: string

text \<open>
  \<^verbatim>\<open>werkzeug.security\<close> is a library, not code of this program: its two functions are
  parameters of the handlers. \<open>generate_password_hash\<close> takes the password, the method, the
  salt length and the randomness the salt is drawn from; \<open>check_password_hash\<close> takes the
  stored digest and the submitted password.
\<close>

record security =
  generate_password_hash :: "string \<Rightarrow> string \<Rightarrow> nat \<Rightarrow> string \<Rightarrow> string"
  check_password_hash :: "string \<Rightarrow> string \<Rightarrow> bool"

subsection \<open>The session\<close>

datatype identity = Anonymous | Authenticated user

text \<open>\<^verbatim>\<open>current_user\<close>: the user \<^verbatim>\<open>load_user\<close> finds for the id in the session, the
  anonymous user when there is no id or no such row.\<close>

definition load_user :: "world \<Rightarrow> int \<Rightarrow> user option" where
  "load_user w user_id = User_query_get (database w) user_id"

definition current_user :: "world \<Rightarrow> identity" where
  "current_user w =
     (case session_user_id w of
        None \<Rightarrow> Anonymous
      | Some uid \<Rightarrow> (case load_user w uid of None \<Rightarrow> Anonymous | Some u \<Rightarrow> Authenticated u))"

definition login_user :: "user \<Rightarrow> world \<Rightarrow> world" where
  "login_user u w = w\<lparr>session_user_id := Some (u_id u)\<rparr>"

definition logout_user :: "world \<Rightarrow> world" where
  "logout_user w = w\<lparr>session_user_id := None\<rparr>"

definition flash :: "string \<Rightarrow> world \<Rightarrow> world" where
  "flash msg w = w\<lparr>flashes := flashes w @ [msg]\<rparr>"

text \<open>
  The two decorators. \<^verbatim>\<open>login_required\<close> answers an anonymous request with
  \<^verbatim>\<open>login_manager.unauthorized()\<close>, which aborts with 401 since the source sets no login
  view. \<^verbatim>\<open>admin_only\<close> (lines 57 to 65) reads \<^verbatim>\<open>current_user.id\<close>, which the anonymous
  user does not have.
\<close>

definition login_required :: "(world \<Rightarrow> response \<times> world) \<Rightarrow> world \<Rightarrow> response \<times> world" where
  "login_required func w =
     (case current_user w of Anonymous \<Rightarrow> (Abort 401, w) | Authenticated u \<Rightarrow> func w)"

definition admin_only :: "(world \<Rightarrow> response \<times> world) \<Rightarrow> world \<Rightarrow> response \<times> world" where
  "admin_only func w =
     (case current_user w of
        Anonymous \<Rightarrow> (Unhandled AttributeError, w)
      | Authenticated u \<Rightarrow> if u_id u \<noteq> admin_id then (Abort 403, w) else func w)"

subsection \<open>The request handlers\<close>

text \<open>Lines 117 to 120.\<close>

definition get_all_posts :: "world \<Rightarrow> response \<times> world" where
  "get_all_posts w =
     (Render_template ''index.html'' (All_posts (BlogPost_query_all (database w))), w)"

text \<open>Lines 123 to 148.\<close>

definition register ::
  "security \<Rightarrow> string \<Rightarrow> register_form option \<Rightarrow> world \<Rightarrow> response \<times> world" where
  "register S entropy form w =
     (case form of
        None \<Rightarrow> (Render_template ''register.html'' Form_context, w)
      | Some f \<Rightarrow>
          (case User_query_filter_by_email_first (database w) (reg_email f) of
             Some email_registered_already \<Rightarrow>
               (Redirect ''login'' None,
                flash ''You've already signed up with that email, log in instead!'' w)
           | None \<Rightarrow>
               (case add_user (database w) (reg_email f)
                       (generate_password_hash S (reg_password f) ''pbkdf2:sha256'' 8 entropy)
                       (reg_name f) of
                  Inl e \<Rightarrow> (Unhandled e, w)
                | Inr (new_user, d) \<Rightarrow>
                    (Redirect ''get_all_posts'' None, login_user new_user (w\<lparr>database := d\<rparr>)))))"

text \<open>Lines 152 to 177.\<close>

definition login :: "security \<Rightarrow> login_form option \<Rightarrow> world \<Rightarrow> response \<times> world" where
  "login S form w =
     (case form of
        None \<Rightarrow> (Render_template ''login.html'' Form_context, w)
      | Some f \<Rightarrow>
          (case User_query_filter_by_email_first (database w) (login_email f) of
             None \<Rightarrow>
               (Redirect ''login'' None, flash ''That email does not exist, please try again'' w)
           | Some u \<Rightarrow>
               if \<not> check_password_hash S (u_password u) (login_password f)
               then (Redirect ''login'' None, flash ''Password incorrect, please try again'' w)
               else (Redirect ''get_all_posts'' None, login_user u w)))"

text \<open>Lines 180 to 183.\<close>

definition logout :: "world \<Rightarrow> response \<times> world" where
  "logout w = (Redirect ''get_all_posts'' None, logout_user w)"

text \<open>Lines 186 to 208. The post is looked up first, whatever the request; the row found is
  only handed to the template.\<close>

definition show_post :: "clock \<Rightarrow> int \<Rightarrow> comment_form option \<Rightarrow> world \<Rightarrow> response \<times> world" where
  "show_post clk post_id form w =
     (case BlogPost_query_get (database w) post_id of
        Inl e \<Rightarrow> (Unhandled e, w)
      | Inr requested_post \<Rightarrow>
          (case form of
             Some f \<Rightarrow>
               (case current_user w of
                  Anonymous \<Rightarrow>
                    (Redirect ''login'' None,
                     flash ''You need to login or register to comment'' w)
                | Authenticated u \<Rightarrow>
                    (Redirect ''show_post'' (Some post_id),
                     w\<lparr>database := add_comment (database w) (u_id u) post_id (comment_data f)
                                      (strftime_B_d_Y (today clk)) (strftime_X (now clk))\<rparr>))
           | None \<Rightarrow> (Render_template ''post.html'' (Post requested_post), w)))"

text \<open>Lines 211 to 213.\<close>

definition about :: "world \<Rightarrow> response \<times> world" where
  "about w = (Render_template ''about.html'' No_context, w)"

text \<open>\<^verbatim>\<open>s.split(sep)\<close> for a separator that is not empty; \<open>cur\<close> is the piece being read,
  reversed.\<close>

fun split_from :: "string \<Rightarrow> string \<Rightarrow> string \<Rightarrow> string list" where
  "split_from sep cur [] = [rev cur]"
| "split_from sep cur (c # cs) =
     (if startswith (c # cs) sep then rev cur # split_from sep [] (drop (length sep - 1) cs)
      else split_from sep (c # cur) cs)"

definition split :: "string \<Rightarrow> string \<Rightarrow> string list" where
  "split s sep = split_from sep [] s"

text \<open>Lines 216 to 239. \<open>relay_ok\<close> says whether the SMTP conversation goes through; the mail
  it delivers is appended to \<open>outbox\<close>.\<close>

definition contact :: "bool \<Rightarrow> contact_form option \<Rightarrow> world \<Rightarrow> response \<times> world" where
  "contact relay_ok form w =
     (case form of
        Some f \<Rightarrow>
          (case split (contact_message f) ''<p>'' of
             p0 # p1 # ps \<Rightarrow>
               (case split p1 ''</p>'' of
                  message # ms \<Rightarrow>
                    if relay_ok
                    then (Render_template ''contact.html'' (Heading ''Successfully Sent Your Message.''),
                          w\<lparr>outbox := outbox w @
                             [''Subject: New Message from Walker's Blog'' @ [CHR 0x0A, CHR 0x0A]
                              @ ''Name: '' @ contact_name f @ [CHR 0x0A]
                              @ ''Email: '' @ contact_email f @ [CHR 0x0A]
                              @ ''Message: '' @ message]\<rparr>)
                    else (Unhandled SMTPException, w)
                | [] \<Rightarrow> (Unhandled IndexError, w))
           | ps \<Rightarrow> (Unhandled IndexError, w))
      | None \<Rightarrow> (Render_template ''contact.html'' (Heading ''Contact Me''), w))"

text \<open>Lines 242 to 261: the function under its decorators, then the route as Flask calls
  it, \<^verbatim>\<open>login_required\<close> outermost.\<close>

definition add_new_post_view ::
  "clock \<Rightarrow> create_post_form option \<Rightarrow> world \<Rightarrow> response \<times> world" where
  "add_new_post_view clk form w =
     (case form of
        Some f \<Rightarrow>
          (case current_user w of
             Anonymous \<Rightarrow> (Unhandled AttributeError, w)
           | Authenticated u \<Rightarrow>
               (case add_post (database w) (u_id u) (form_title f) (form_subtitle f) (form_body f)
                       (form_img_url f) (strftime_B_d_Y (today clk)) of
                  Inl e \<Rightarrow> (Unhandled e, w)
                | Inr d \<Rightarrow> (Redirect ''get_all_posts'' None, w\<lparr>database := d\<rparr>)))
      | None \<Rightarrow> (Render_template ''make-post.html'' Form_context, w))"

definition add_new_post ::
  "clock \<Rightarrow> create_post_form option \<Rightarrow> world \<Rightarrow> response \<times> world" where
  "add_new_post clk form = login_required (admin_only (add_new_post_view clk form))"

text \<open>Lines 264 to 285. \<^verbatim>\<open>post.title\<close> is read before the form is looked at.\<close>

definition edit_post_view :: "int \<Rightarrow> create_post_form option \<Rightarrow> world \<Rightarrow> response \<times> world" where
  "edit_post_view post_id form w =
     (case BlogPost_query_get (database w) post_id of
        Inl e \<Rightarrow> (Unhandled e, w)
      | Inr None \<Rightarrow> (Unhandled AttributeError, w)
      | Inr (Some post) \<Rightarrow>
          (case form of
             Some f \<Rightarrow>
               (case update_post (database w) (p_id post) (form_title f) (form_subtitle f)
                       (form_img_url f) (form_body f) of
                  Inl e \<Rightarrow> (Unhandled e, w)
                | Inr d \<Rightarrow> (Redirect ''show_post'' (Some (p_id post)), w\<lparr>database := d\<rparr>))
           | None \<Rightarrow> (Render_template ''make-post.html'' Form_context, w)))"

definition edit_post :: "int \<Rightarrow> create_post_form option \<Rightarrow> world \<Rightarrow> response \<times> world" where
  "edit_post post_id form = login_required (admin_only (edit_post_view post_id form))"

text \<open>Lines 288 to 295. \<^verbatim>\<open>db.session.delete(None)\<close> raises
  \<^verbatim>\<open>UnmappedInstanceError\<close>.\<close>

definition delete_post_view :: "int \<Rightarrow> world \<Rightarrow> response \<times> world" where
  "delete_post_view post_id w =
     (case BlogPost_query_get (database w) post_id of
        Inl e \<Rightarrow> (Unhandled e, w)
      | Inr None \<Rightarrow> (Unhandled UnmappedInstanceError, w)
      | Inr (Some post_to_delete) \<Rightarrow>
          (Redirect ''get_all_posts'' None,
           w\<lparr>database := session_delete_post (database w) (p_id post_to_delete)\<rparr>))"

definition delete_post :: "int \<Rightarrow> world \<Rightarrow> response \<times> world" where
  "delete_post post_id = login_required (admin_only (delete_post_view post_id))"

subsection \<open>Requests\<close>

datatype request =
  Get_all_posts
  | Register string "register_form option"
  | Login "login_form option"
  | Logout
  | Show_post clock int "comment_form option"
  | About
  | Contact bool "contact_form option"
  | Add_new_post clock "create_post_form option"
  | Edit_post int "create_post_form option"
  | Delete_post int

text \<open>The routes. The converter \<^verbatim>\<open><int:post_id>\<close> matches digits only: a negative id
  is no route, and Flask answers 404 without calling a handler.\<close>

fun handle :: "security \<Rightarrow> request \<Rightarrow> world \<Rightarrow> response \<times> world" where
  "handle S Get_all_posts w = get_all_posts w"
| "handle S (Register entropy form) w = register S entropy form w"
| "handle S (Login form) w = login S form w"
| "handle S Logout w = logout w"
| "handle S (Show_post clk post_id form) w =
     (if post_id < 0 then (Abort 404, w) else show_post clk post_id form w)"
| "handle S About w = about w"
| "handle S (Contact relay_ok form) w = contact relay_ok form w"
| "handle S (Add_new_post clk form) w = add_new_post clk form w"
| "handle S (Edit_post post_id form) w =
     (if post_id < 0 then (Abort 404, w) else edit_post post_id form w)"
| "handle S (Delete_post post_id) w =
     (if post_id < 0 then (Abort 404, w) else delete_post post_id w)"

text \<open>A run of requests from a state, and the state an empty database starts in.\<close>

fun run :: "security \<Rightarrow> request list \<Rightarrow> world \<Rightarrow> world" where
  "run S [] w = w"
| "run S (r # rs) w = run S rs (snd (handle S r w))"

definition empty_world :: world where
  "empty_world = \<lparr>database = \<lparr>users = [], blog_posts = [], comments = []\<rparr>,
                   session_user_id = None, flashes = [], outbox = []\<rparr>"

subsection \<open>Properties of the tables\<close>




text \<open>What \<^verbatim>\<open>edit_post\<close> may change of a stored post: nothing of a post with another key, and
  neither the key, the author nor the date of the post with the key \<open>pid\<close>.\<close>

definition post_frame :: "int \<Rightarrow> blog_post \<Rightarrow> blog_post \<Rightarrow> bool" where
  "post_frame pid p p' =
     (if p_id p = pid
      then p_id p' = p_id p \<and> p_author_id p' = p_author_id p \<and> p_date p' = p_date p
      else p' = p)"

subsection \<open>A concrete run\<close>

text \<open>
  Stand-ins for the two library functions, the clock and the forms, to run the handlers on:
  the administrator registers and publishes a post, a reader registers and comments on it
  and on the post number 7, which does not exist, and the administrator logs in again.
\<close>

definition example_security :: security where
  "example_security =
     \<lparr>generate_password_hash =
        (\<lambda>pw method n entropy. method @ ''$'' @ take n entropy @ ''$'' @ rev pw),
      check_password_hash = (\<lambda>digest pw. startswith (rev digest) (pw @ ''$''))\<rparr>"

definition example_clock :: clock where
  "example_clock = \<lparr>today = \<lparr>year = 2025, month = April, day = 2\<rparr>,
                     now = \<lparr>hour = 9, minute = 5, second = 7\<rparr>\<rparr>"

definition example_requests :: "request list" where
  "example_requests =
     [Register ''saltsalt''
        (Some \<lparr>reg_email = ''admin@blog'', reg_password = ''root'', reg_name = ''Admin''\<rparr>),
      Add_new_post example_clock
        (Some \<lparr>form_title = ''T1'', form_subtitle = ''S1'',
               form_img_url = ''http://x/y.png'', form_body = ''B1''\<rparr>),
      Register ''pepper12''
        (Some \<lparr>reg_email = ''reader@blog'', reg_password = ''pw'', reg_name = ''Reader''\<rparr>),
      Show_post example_clock 1 (Some \<lparr>comment_data = ''Nice''\<rparr>),
      Show_post example_clock 7 (Some \<lparr>comment_data = ''Lost''\<rparr>),
      Login (Some \<lparr>login_email = ''admin@blog'', login_password = ''root''\<rparr>)]"

definition example_users :: "user list" where
  "example_users =
     [\<lparr>u_id = 1, u_email = ''admin@blog'', u_password = ''pbkdf2:sha256$saltsalt$toor'',
       u_name = ''Admin''\<rparr>,
      \<lparr>u_id = 2, u_email = ''reader@blog'', u_password = ''pbkdf2:sha256$pepper12$wp'',
       u_name = ''Reader''\<rparr>]"

definition example_post :: blog_post where
  "example_post =
     \<lparr>p_id = 1, p_author_id = Some 1, p_title = ''T1'', p_subtitle = ''S1'',
      p_date = ''April 02, 2025'', p_body = ''B1'', p_img_url = ''http://x/y.png''\<rparr>"

definition example_comment :: comment where
  "example_comment =
     \<lparr>c_id = 1, c_author_id = Some 2, c_post_id = Some 1, c_text = ''Nice'',
      c_date = ''April 02, 2025'', c_time = ''09:05:07''\<rparr>"

definition lost_comment :: comment where
  "lost_comment =
     \<lparr>c_id = 2, c_author_id = Some 2, c_post_id = Some 7, c_text = ''Lost'',
      c_date = ''April 02, 2025'', c_time = ''09:05:07''\<rparr>"

text \<open>The state after the first four requests, the reader logged in; the same with nobody
  logged in, and with the administrator logged in; and the state after all six.\<close>

definition reader_world :: world where
  "reader_world =
     \<lparr>database = \<lparr>users = example_users, blog_posts = [example_post],
                   comments = [example_comment]\<rparr>,
      session_user_id = Some 2, flashes = [], outbox = []\<rparr>"

definition anonymous_world :: world where
  "anonymous_world = reader_world\<lparr>session_user_id := None\<rparr>"

definition admin_world :: world where
  "admin_world = reader_world\<lparr>session_user_id := Some 1\<rparr>"

definition example_world :: world where
  "example_world =
     \<lparr>database = \<lparr>users = example_users, blog_posts = [example_post],
                   comments = [example_comment, lost_comment]\<rparr>,
      session_user_id = Some 1, flashes = [], outbox = []\<rparr>"

section \<open>Evaluation on the concrete run\<close>

lemmas handler_defs =
  get_all_posts_def register_def login_def logout_def show_post_def about_def contact_def
  add_new_post_def add_new_post_view_def edit_post_def edit_post_view_def
  delete_post_def delete_post_view_def login_required_def admin_only_def
  current_user_def load_user_def login_user_def logout_user_def flash_def
  User_query_get_def User_query_filter_by_email_first_def BlogPost_query_get_def
  BlogPost_query_all_def add_user_def add_post_def add_comment_def update_post_def
  session_delete_post_def next_id_def admin_id_def sqlite_integer_def

lemmas example_defs =
  example_security_def example_clock_def example_users_def example_post_def
  example_comment_def lost_comment_def reader_world_def anonymous_world_def admin_world_def
  example_world_def empty_world_def

lemma example_stamps:
  "strftime_B_d_Y \<lparr>year = 2025, month = April, day = 2\<rparr> = ''April 02, 2025''"
  "strftime_X \<lparr>hour = 9, minute = 5, second = 7\<rparr> = ''09:05:07''"
  by (simp_all add: strftime_B_d_Y_def strftime_X_def pad2_def digit_def)

text \<open>The example states are states of the program: the handlers reach them from the empty
  database.\<close>

lemma reader_world_reachable:
  "run example_security (take 4 example_requests) empty_world = reader_world"
  by (simp add: example_requests_def handler_defs example_defs example_stamps Let_def
      startswith_def)

lemma example_world_reachable:
  "run example_security example_requests empty_world = example_world"
  by (simp add: example_requests_def handler_defs example_defs example_stamps Let_def
      startswith_def)

lemma current_user_reader_world:
  "current_user reader_world = Authenticated (example_users ! 1)"
  by (simp add: handler_defs example_defs)

lemma current_user_admin_world:
  "current_user admin_world = Authenticated (example_users ! 0)"
  by (simp add: handler_defs example_defs)


section \<open>Queries\<close>

lemma startswith_iff: "startswith s p \<longleftrightarrow> (\<exists>t. s = p @ t)"
  unfolding startswith_def
  by (metis append_eq_conv_conj append_take_drop_id)

lemma replace_first_prefix:
  "startswith s old \<Longrightarrow> replace_first s old new = new @ drop (length old) s"
  by (cases s) (auto simp: startswith_def)

lemma find_filter: "(\<And>x. P x \<Longrightarrow> Q x) \<Longrightarrow> find P (filter Q xs) = find P xs"
  by (induction xs) auto


lemma find_map_keeping:
  "(\<And>x. P (g x) = P x) \<Longrightarrow> find P (map g xs) = map_option g (find P xs)"
  by (induction xs) auto

lemma find_append_None: "find P xs = None \<Longrightarrow> find P (xs @ ys) = find P ys"
  by (induction xs) (auto split: if_splits)


lemma BlogPost_query_get_id:
  "BlogPost_query_get d pid = Inr (Some p) \<Longrightarrow> p_id p = pid \<and> sqlite_integer pid"
  by (auto simp: BlogPost_query_get_def find_Some_iff split: if_splits)





lemma admin_passes_guards:
  "current_user w = Authenticated a \<Longrightarrow> u_id a = admin_id \<Longrightarrow>
   login_required (admin_only func) w = func w"
  by (simp add: login_required_def admin_only_def)

lemma other_user_forbidden:
  "current_user w = Authenticated u \<Longrightarrow> u_id u \<noteq> admin_id \<Longrightarrow>
   login_required (admin_only func) w = (Abort 403, w)"
  by (simp add: login_required_def admin_only_def)

lemma anonymous_unauthorized:
  "current_user w = Anonymous \<Longrightarrow> login_required func w = (Abort 401, w)"
  by (simp add: login_required_def)

section \<open>Deleting a post\<close>





section \<open>Administrator routes\<close>

text \<open>
  C2. A logged-in user whose id is not the administrator's gets 403 from \<^verbatim>\<open>/new-post\<close>,
  \<^verbatim>\<open>/edit-post/<id>\<close> and \<^verbatim>\<open>/delete/<id>\<close>, whatever the form and the post id, and the
  state (tables, session, flashed messages) is the one the request found.
\<close>

theorem non_admin_forbidden:
  assumes "current_user w = Authenticated u" and "u_id u \<noteq> admin_id"
  shows "add_new_post clk form w = (Abort 403, w)
       \<and> edit_post post_id form w = (Abort 403, w)
       \<and> delete_post post_id w = (Abort 403, w)"
  using assms
  by (simp add: add_new_post_def edit_post_def delete_post_def other_user_forbidden)

theorem non_admin_forbidden_witness:
  "current_user reader_world = Authenticated (example_users ! 1)
   \<and> u_id (example_users ! 1) \<noteq> admin_id
   \<and> add_new_post example_clock
        (Some \<lparr>form_title = ''T2'', form_subtitle = ''S2'', form_img_url = ''u'',
               form_body = ''B2''\<rparr>) reader_world = (Abort 403, reader_world)
   \<and> edit_post 1
        (Some \<lparr>form_title = ''T2'', form_subtitle = ''S2'', form_img_url = ''u'',
               form_body = ''B2''\<rparr>) reader_world = (Abort 403, reader_world)
   \<and> delete_post 1 reader_world = (Abort 403, reader_world)"
proof -
  have a: "current_user reader_world = Authenticated (example_users ! 1)"
    by (rule current_user_reader_world)
  have b: "u_id (example_users ! 1) \<noteq> admin_id"
    by (simp add: example_users_def admin_id_def)
  from non_admin_forbidden [OF a b] a b show ?thesis
    by simp
qed




section \<open>Configuration\<close>

text \<open>
  C8. When the configured connection string is the legacy prefix \<^verbatim>\<open>postgres://\<close> followed
  by \<open>rest\<close>, the string used is \<^verbatim>\<open>postgresql://\<close> followed by the same \<open>rest\<close> (later
  occurrences of the prefix inside \<open>rest\<close> stay); a string that does not start with the
  prefix is used as it is.
\<close>

theorem heroku_url_normalised:
  assumes "environ ''DATABASE_URL'' = Some s"
  shows "(\<forall>rest. s = ''postgres://'' @ rest \<longrightarrow> heroku_url environ = ''postgresql://'' @ rest)
       \<and> (\<not> startswith s ''postgres://'' \<longrightarrow> heroku_url environ = s)"
proof (intro conjI allI impI)
  fix rest
  assume s: "s = ''postgres://'' @ rest"
  then have "startswith s ''postgres://''"
    by (simp add: startswith_def)
  then have "heroku_url environ = ''postgresql://'' @ drop (length ''postgres://'') s"
    using assms by (simp add: heroku_url_def replace_first_prefix del: length_Cons list.size)
  with s show "heroku_url environ = ''postgresql://'' @ rest"
    by simp
next
  assume "\<not> startswith s ''postgres://''"
  with assms show "heroku_url environ = s"
    by (simp add: heroku_url_def)
qed

theorem heroku_url_normalised_witness:
  "[''DATABASE_URL'' \<mapsto> ''postgres://u@h/postgres://d''] ''DATABASE_URL''
     = Some ''postgres://u@h/postgres://d''
   \<and> heroku_url [''DATABASE_URL'' \<mapsto> ''postgres://u@h/postgres://d'']
     = ''postgresql://u@h/postgres://d''
   \<and> [''DATABASE_URL'' \<mapsto> ''mysql://postgres://d''] ''DATABASE_URL''
     = Some ''mysql://postgres://d''
   \<and> \<not> startswith ''mysql://postgres://d'' ''postgres://''
   \<and> heroku_url [''DATABASE_URL'' \<mapsto> ''mysql://postgres://d''] = ''mysql://postgres://d''"
proof -
  have a: "[''DATABASE_URL'' \<mapsto> ''postgres://u@h/postgres://d''] ''DATABASE_URL''
      = Some ''postgres://u@h/postgres://d''"
    by simp
  have b: "[''DATABASE_URL'' \<mapsto> ''mysql://postgres://d''] ''DATABASE_URL''
      = Some ''mysql://postgres://d''"
    by simp
  have c: "\<not> startswith ''mysql://postgres://d'' ''postgres://''"
    by (simp add: startswith_def)
  from heroku_url_normalised
         [of "[''DATABASE_URL'' \<mapsto> ''postgres://u@h/postgres://d'']"
             "''postgres://u@h/postgres://d''", OF a]
       heroku_url_normalised
         [of "[''DATABASE_URL'' \<mapsto> ''mysql://postgres://d'']" "''mysql://postgres://d''", OF b]
       a b c
  show ?thesis
    by simp
qed


section \<open>Registration and login\<close>

lemma filter_by_email_None_iff:
  "User_query_filter_by_email_first d e = None \<longleftrightarrow> e \<notin> set (map u_email (users d))"
  by (auto simp: User_query_filter_by_email_first_def find_None_iff)

lemma filter_by_email_Some:
  "User_query_filter_by_email_first d e = Some u \<Longrightarrow> u \<in> set (users d) \<and> u_email u = e"
  by (auto simp: User_query_filter_by_email_first_def find_Some_iff)

lemma register_duplicate:
  assumes "reg_email f \<in> set (map u_email (users (database w)))"
  shows "register S entropy (Some f) w =
           (Redirect ''login'' None,
            flash ''You've already signed up with that email, log in instead!'' w)"
proof -
  from assms have "User_query_filter_by_email_first (database w) (reg_email f) \<noteq> None"
    by (simp add: filter_by_email_None_iff)
  then show ?thesis
    by (auto simp: register_def)
qed

text \<open>A registration with an email that no row has: the row is appended with the digest
  of the password as \<^verbatim>\<open>generate_password_hash\<close> returns it for the method
  \<^verbatim>\<open>pbkdf2:sha256\<close> and the salt length 8, and the new user is logged in.\<close>

lemma register_fresh:
  assumes "reg_email f \<notin> set (map u_email (users (database w)))"
  shows "register S entropy (Some f) w =
           (Redirect ''get_all_posts'' None,
            w\<lparr>database := (database w)\<lparr>users := users (database w) @
                 [\<lparr>u_id = next_id (map u_id (users (database w))), u_email = reg_email f,
                   u_password = generate_password_hash S (reg_password f) ''pbkdf2:sha256'' 8
                                  entropy,
                   u_name = reg_name f\<rparr>]\<rparr>,
              session_user_id := Some (next_id (map u_id (users (database w))))\<rparr>)"
proof -
  from assms have none: "User_query_filter_by_email_first (database w) (reg_email f) = None"
    by (simp add: filter_by_email_None_iff)
  from assms have "\<not> list_ex (\<lambda>u. u_email u = reg_email f) (users (database w))"
    by (force simp: list_ex_iff)
  with none show ?thesis
    by (simp add: register_def add_user_def login_user_def Let_def)
qed

text \<open>
  What \<^verbatim>\<open>main.py\<close> decides of C5: the lookup by email after such a registration returns
  the new row, and its password column holds what \<^verbatim>\<open>generate_password_hash\<close> returned for
  the submitted password, never the password itself unless the library returns it. That the
  digest differs from the password and that \<^verbatim>\<open>check_password_hash\<close> accepts it are
  properties of PBKDF2 in \<^verbatim>\<open>werkzeug.security\<close>, not of this program, and are not
  settled here.
\<close>

lemma register_then_lookup:
  assumes "reg_email f \<notin> set (map u_email (users (database w)))"
  shows "User_query_filter_by_email_first (database (snd (register S entropy (Some f) w)))
           (reg_email f) =
         Some \<lparr>u_id = next_id (map u_id (users (database w))), u_email = reg_email f,
               u_password = generate_password_hash S (reg_password f) ''pbkdf2:sha256'' 8
                              entropy,
               u_name = reg_name f\<rparr>"
proof -
  from assms have "find (\<lambda>u. u_email u = reg_email f) (users (database w)) = None"
    by (force simp: find_None_iff)
  then show ?thesis
    by (simp add: register_fresh [OF assms] User_query_filter_by_email_first_def
        find_append_None)
qed

text \<open>
  C3. A registration with an email that a stored user already has is answered with the
  flashed message and the redirect to the login page, and leaves the tables and the
  session as they were: the lookup decides before anything is written. In particular, after
  a first registration with a new email has succeeded, a second one with the same email
  is answered so, and the table still has exactly one row with that email.
\<close>

theorem register_duplicate_email:
  "(reg_email f \<in> set (map u_email (users (database w))) \<longrightarrow>
      register S entropy (Some f) w =
        (Redirect ''login'' None,
         flash ''You've already signed up with that email, log in instead!'' w)
      \<and> database (snd (register S entropy (Some f) w)) = database w
      \<and> session_user_id (snd (register S entropy (Some f) w)) = session_user_id w)
   \<and> (reg_email f \<notin> set (map u_email (users (database w))) \<and> reg_email f' = reg_email f \<longrightarrow>
      fst (register S entropy (Some f) w) = Redirect ''get_all_posts'' None
      \<and> fst (register S entropy' (Some f') (snd (register S entropy (Some f) w)))
          = Redirect ''login'' None
      \<and> database (snd (register S entropy' (Some f') (snd (register S entropy (Some f) w))))
          = database (snd (register S entropy (Some f) w))
      \<and> length (filter (\<lambda>u. u_email u = reg_email f)
           (users (database
              (snd (register S entropy' (Some f') (snd (register S entropy (Some f) w)))))))
          = 1)"
proof (intro conjI impI)
  assume dup: "reg_email f \<in> set (map u_email (users (database w)))"
  show "register S entropy (Some f) w =
      (Redirect ''login'' None,
       flash ''You've already signed up with that email, log in instead!'' w)"
    using dup by (rule register_duplicate)
  then show "database (snd (register S entropy (Some f) w)) = database w"
    and "session_user_id (snd (register S entropy (Some f) w)) = session_user_id w"
    by (simp_all add: flash_def)
next
  assume "reg_email f \<notin> set (map u_email (users (database w))) \<and> reg_email f' = reg_email f"
  then have fresh: "reg_email f \<notin> set (map u_email (users (database w)))"
    and same: "reg_email f' = reg_email f"
    by simp_all
  let ?w1 = "snd (register S entropy (Some f) w)"
  have first: "users (database ?w1) = users (database w) @
      [\<lparr>u_id = next_id (map u_id (users (database w))), u_email = reg_email f,
        u_password = generate_password_hash S (reg_password f) ''pbkdf2:sha256'' 8 entropy,
        u_name = reg_name f\<rparr>]"
    by (simp add: register_fresh [OF fresh])
  then have "reg_email f' \<in> set (map u_email (users (database ?w1)))"
    using same by simp
  then have second: "register S entropy' (Some f') ?w1 =
      (Redirect ''login'' None,
       flash ''You've already signed up with that email, log in instead!'' ?w1)"
    by (rule register_duplicate)
  show "fst (register S entropy (Some f) w) = Redirect ''get_all_posts'' None"
    by (simp add: register_fresh [OF fresh])
  show "fst (register S entropy' (Some f') ?w1) = Redirect ''login'' None"
    by (simp add: second)
  show "database (snd (register S entropy' (Some f') ?w1)) = database ?w1"
    by (simp add: second flash_def)
  have "filter (\<lambda>u. u_email u = reg_email f) (users (database w)) = []"
    using fresh by (force simp: filter_empty_conv)
  then show "length (filter (\<lambda>u. u_email u = reg_email f)
      (users (database (snd (register S entropy' (Some f') ?w1))))) = 1"
    by (simp add: second flash_def first)
qed

theorem register_duplicate_email_witness:
  "''reader@blog'' \<in> set (map u_email (users (database anonymous_world)))
   \<and> register example_security ''abcdefgh''
       (Some \<lparr>reg_email = ''reader@blog'', reg_password = ''x'', reg_name = ''Again''\<rparr>)
       anonymous_world =
     (Redirect ''login'' None,
      anonymous_world
        \<lparr>flashes := [''You've already signed up with that email, log in instead!'']\<rparr>)
   \<and> ''new@blog'' \<notin> set (map u_email (users (database anonymous_world)))
   \<and> map u_email (users (database
        (snd (register example_security ''abcdefgh''
           (Some \<lparr>reg_email = ''new@blog'', reg_password = ''y'', reg_name = ''Two''\<rparr>)
           (snd (register example_security ''12345678''
              (Some \<lparr>reg_email = ''new@blog'', reg_password = ''x'', reg_name = ''One''\<rparr>)
              anonymous_world))))))
     = [''admin@blog'', ''reader@blog'', ''new@blog'']"
proof -
  have a: "''reader@blog'' \<in> set (map u_email (users (database anonymous_world)))"
    by (simp add: example_defs)
  have b: "''new@blog'' \<notin> set (map u_email (users (database anonymous_world)))"
    by (simp add: example_defs)
  have c: "users (database
      (snd (register example_security ''12345678''
         (Some \<lparr>reg_email = ''new@blog'', reg_password = ''x'', reg_name = ''One''\<rparr>)
         anonymous_world)))
     = example_users @ [\<lparr>u_id = 3, u_email = ''new@blog'',
          u_password = ''pbkdf2:sha256$12345678$x'', u_name = ''One''\<rparr>]"
    by (simp add: handler_defs example_defs Let_def)
  from register_duplicate_email
         [where f = "\<lparr>reg_email = ''reader@blog'', reg_password = ''x'', reg_name = ''Again''\<rparr>"
            and w = anonymous_world and S = example_security and entropy = "''abcdefgh''"]
       register_duplicate_email
         [where f = "\<lparr>reg_email = ''new@blog'', reg_password = ''x'', reg_name = ''One''\<rparr>"
            and w = anonymous_world
            and f' = "\<lparr>reg_email = ''new@blog'', reg_password = ''y'', reg_name = ''Two''\<rparr>"
            and S = example_security and entropy = "''12345678''" and entropy' = "''abcdefgh''"]
       a b c
  show ?thesis
    by (simp add: flash_def example_defs)
qed


text \<open>
  C4. A login with an email that no stored user has flashes the message of line 165 and
  leaves the session as it was; a login with the email of a stored user and a password that
  \<^verbatim>\<open>check_password_hash\<close> does not accept for the stored digest flashes the message of
  line 170, a different one, and leaves the session as it was; when both checks pass the
  session is bound to the id of that user. The redirect to the list of posts, which follows
  \<^verbatim>\<open>login_user\<close>, is only given when both checks have passed.
\<close>

theorem login_outcomes:
  "(login_email f \<notin> set (map u_email (users (database w))) \<longrightarrow>
      login S (Some f) w =
        (Redirect ''login'' None, flash ''That email does not exist, please try again'' w)
      \<and> session_user_id (snd (login S (Some f) w)) = session_user_id w)
   \<and> (\<forall>u. User_query_filter_by_email_first (database w) (login_email f) = Some u
          \<and> \<not> check_password_hash S (u_password u) (login_password f) \<longrightarrow>
      login S (Some f) w =
        (Redirect ''login'' None, flash ''Password incorrect, please try again'' w)
      \<and> session_user_id (snd (login S (Some f) w)) = session_user_id w)
   \<and> (\<forall>u. User_query_filter_by_email_first (database w) (login_email f) = Some u
          \<and> check_password_hash S (u_password u) (login_password f) \<longrightarrow>
      login S (Some f) w = (Redirect ''get_all_posts'' None, login_user u w)
      \<and> session_user_id (snd (login S (Some f) w)) = Some (u_id u))
   \<and> (fst (login S (Some f) w) = Redirect ''get_all_posts'' None \<longrightarrow>
        (\<exists>u. User_query_filter_by_email_first (database w) (login_email f) = Some u
           \<and> check_password_hash S (u_password u) (login_password f)
           \<and> session_user_id (snd (login S (Some f) w)) = Some (u_id u)))
   \<and> ''That email does not exist, please try again'' \<noteq> ''Password incorrect, please try again''"
proof (intro conjI allI impI)
  assume "login_email f \<notin> set (map u_email (users (database w)))"
  then have none: "User_query_filter_by_email_first (database w) (login_email f) = None"
    by (simp add: filter_by_email_None_iff)
  then show "login S (Some f) w =
      (Redirect ''login'' None, flash ''That email does not exist, please try again'' w)"
    by (simp add: login_def)
  from none show "session_user_id (snd (login S (Some f) w)) = session_user_id w"
    by (simp add: login_def flash_def)
next
  fix u
  assume a: "User_query_filter_by_email_first (database w) (login_email f) = Some u
      \<and> \<not> check_password_hash S (u_password u) (login_password f)"
  then show "login S (Some f) w =
      (Redirect ''login'' None, flash ''Password incorrect, please try again'' w)"
    by (simp add: login_def)
  from a show "session_user_id (snd (login S (Some f) w)) = session_user_id w"
    by (simp add: login_def flash_def)
next
  fix u
  assume a: "User_query_filter_by_email_first (database w) (login_email f) = Some u
      \<and> check_password_hash S (u_password u) (login_password f)"
  then show "login S (Some f) w = (Redirect ''get_all_posts'' None, login_user u w)"
    by (simp add: login_def)
  from a show "session_user_id (snd (login S (Some f) w)) = Some (u_id u)"
    by (simp add: login_def login_user_def)
next
  assume "fst (login S (Some f) w) = Redirect ''get_all_posts'' None"
  then show "\<exists>u. User_query_filter_by_email_first (database w) (login_email f) = Some u
      \<and> check_password_hash S (u_password u) (login_password f)
      \<and> session_user_id (snd (login S (Some f) w)) = Some (u_id u)"
    by (auto simp: login_def login_user_def split: option.splits if_splits)
next
  show "''That email does not exist, please try again'' \<noteq> ''Password incorrect, please try again''"
    by simp
qed

theorem login_outcomes_witness:
  "''nobody@blog'' \<notin> set (map u_email (users (database anonymous_world)))
   \<and> login example_security
       (Some \<lparr>login_email = ''nobody@blog'', login_password = ''pw''\<rparr>) anonymous_world =
     (Redirect ''login'' None,
      anonymous_world\<lparr>flashes := [''That email does not exist, please try again'']\<rparr>)
   \<and> User_query_filter_by_email_first (database anonymous_world) ''reader@blog''
       = Some (example_users ! 1)
   \<and> \<not> check_password_hash example_security (u_password (example_users ! 1)) ''root''
   \<and> login example_security
       (Some \<lparr>login_email = ''reader@blog'', login_password = ''root''\<rparr>) anonymous_world =
     (Redirect ''login'' None,
      anonymous_world\<lparr>flashes := [''Password incorrect, please try again'']\<rparr>)
   \<and> check_password_hash example_security (u_password (example_users ! 1)) ''pw''
   \<and> login example_security
       (Some \<lparr>login_email = ''reader@blog'', login_password = ''pw''\<rparr>) anonymous_world =
     (Redirect ''get_all_posts'' None, reader_world)"
proof -
  have a: "''nobody@blog'' \<notin> set (map u_email (users (database anonymous_world)))"
    by (simp add: example_defs)
  have b: "User_query_filter_by_email_first (database anonymous_world) ''reader@blog''
      = Some (example_users ! 1)"
    by (simp add: User_query_filter_by_email_first_def example_defs)
  have c: "\<not> check_password_hash example_security (u_password (example_users ! 1)) ''root''"
    by (simp add: example_defs startswith_def)
  have d: "check_password_hash example_security (u_password (example_users ! 1)) ''pw''"
    by (simp add: example_defs startswith_def)
  have e: "login_user (example_users ! 1) anonymous_world = reader_world"
    by (simp add: login_user_def example_defs)
  from login_outcomes
         [where f = "\<lparr>login_email = ''nobody@blog'', login_password = ''pw''\<rparr>"
            and w = anonymous_world and S = example_security]
       login_outcomes
         [where f = "\<lparr>login_email = ''reader@blog'', login_password = ''root''\<rparr>"
            and w = anonymous_world and S = example_security]
       login_outcomes
         [where f = "\<lparr>login_email = ''reader@blog'', login_password = ''pw''\<rparr>"
            and w = anonymous_world and S = example_security]
       a b c d e
  show ?thesis
    by (simp add: flash_def anonymous_world_def reader_world_def)
qed

section \<open>The stamps\<close>

text \<open>What the formatters return, in terms of the characters: a number below 100 is written
  with its two decimal digits; \<open>decimal\<close> writes the digits of a number, most significant
  first and without a leading zero.\<close>

declare decimal.simps [simp del]













section \<open>Comments\<close>

























section \<open>Editing a post\<close>

lemma post_frame_same: "list_all2 (post_frame pid) ps ps"
  by (simp add: post_frame_def list_all2_refl)

lemma update_post_frame:
  assumes "update_post d pid t st img b = Inr d'"
  shows "users d' = users d \<and> comments d' = comments d
       \<and> list_all2 (post_frame pid) (blog_posts d) (blog_posts d')"
proof -
  from assms have d': "d' = d\<lparr>blog_posts :=
      map (\<lambda>p. if p_id p = pid
                then p\<lparr>p_title := t, p_subtitle := st, p_img_url := img, p_body := b\<rparr>
                else p) (blog_posts d)\<rparr>"
    by (simp add: update_post_def split: if_splits)
  show ?thesis
    unfolding d' by (simp add: list_all2_map2 post_frame_def list_all2_refl)
qed

lemma update_post_lookup:
  assumes "update_post d pid t st img b = Inr d'"
    and "BlogPost_query_get d pid = Inr (Some p)"
  shows "BlogPost_query_get d' pid =
           Inr (Some (p\<lparr>p_title := t, p_subtitle := st, p_img_url := img, p_body := b\<rparr>))"
proof -
  from assms(1) have d': "blog_posts d' =
      map (\<lambda>p. if p_id p = pid
                then p\<lparr>p_title := t, p_subtitle := st, p_img_url := img, p_body := b\<rparr>
                else p) (blog_posts d)"
    by (auto simp: update_post_def split: if_splits)
  have "find (\<lambda>q. p_id q = pid)
          (map (\<lambda>p. if p_id p = pid
                then p\<lparr>p_title := t, p_subtitle := st, p_img_url := img, p_body := b\<rparr>
                else p) (blog_posts d))
        = map_option (\<lambda>p. if p_id p = pid
                then p\<lparr>p_title := t, p_subtitle := st, p_img_url := img, p_body := b\<rparr>
                else p) (find (\<lambda>q. p_id q = pid) (blog_posts d))"
    by (rule find_map_keeping) simp
  with assms(2) BlogPost_query_get_id [OF assms(2)] show ?thesis
    by (simp add: BlogPost_query_get_def d' split: if_splits)
qed

text \<open>
  C7. When the administrator requests \<^verbatim>\<open>/edit-post/<id>\<close> for a stored post, with or without
  a submitted form, the users, the comments and the session are unchanged, every post with
  another id is unchanged, and the post with that id keeps its id, its author and its
  date. When a form is submitted and no other post has its title, the request redirects to
  the post, which is now the old post with the title, subtitle, image URL and body of the
  form.
\<close>

theorem edit_post_frame:
  assumes "current_user w = Authenticated a" and "u_id a = admin_id"
    and "BlogPost_query_get (database w) pid = Inr (Some p)"
  shows "users (database (snd (edit_post pid form w))) = users (database w)
    \<and> comments (database (snd (edit_post pid form w))) = comments (database w)
    \<and> session_user_id (snd (edit_post pid form w)) = session_user_id w
    \<and> list_all2 (post_frame pid) (blog_posts (database w))
         (blog_posts (database (snd (edit_post pid form w))))
    \<and> (\<forall>f. form = Some f
          \<and> \<not> list_ex (\<lambda>q. p_id q \<noteq> pid \<and> p_title q = form_title f) (blog_posts (database w))
        \<longrightarrow> fst (edit_post pid form w) = Redirect ''show_post'' (Some pid)
          \<and> BlogPost_query_get (database (snd (edit_post pid form w))) pid =
              Inr (Some (p\<lparr>p_title := form_title f, p_subtitle := form_subtitle f,
                           p_img_url := form_img_url f, p_body := form_body f\<rparr>)))"
proof -
  have pid: "p_id p = pid"
    using BlogPost_query_get_id [OF assms(3)] by simp
  have guard: "edit_post pid fm w = edit_post_view pid fm w" for fm
    using assms(1,2) by (simp add: edit_post_def admin_passes_guards)
  show ?thesis
  proof (cases form)
    case None
    with assms(3) have "edit_post_view pid form w =
        (Render_template ''make-post.html'' Form_context, w)"
      by (simp add: edit_post_view_def)
    with None show ?thesis
      by (simp add: guard post_frame_same)
  next
    case (Some f)
    show ?thesis
    proof (cases "update_post (database w) pid (form_title f) (form_subtitle f)
                    (form_img_url f) (form_body f)")
      case (Inl e)
      with assms(3) pid have "edit_post_view pid (Some f) w = (Unhandled e, w)"
        by (simp add: edit_post_view_def)
      moreover from Inl
      have "list_ex (\<lambda>q. p_id q \<noteq> pid \<and> p_title q = form_title f) (blog_posts (database w))"
        by (simp add: update_post_def split: if_splits)
      ultimately show ?thesis
        using Some by (simp add: guard post_frame_same)
    next
      case (Inr d')
      with assms(3) pid have run: "edit_post_view pid (Some f) w =
          (Redirect ''show_post'' (Some pid), w\<lparr>database := d'\<rparr>)"
        by (simp add: edit_post_view_def)
      from update_post_frame [OF Inr] update_post_lookup [OF Inr assms(3)] Some show ?thesis
        by (simp add: guard run)
    qed
  qed
qed

theorem edit_post_frame_witness:
  "current_user admin_world = Authenticated (example_users ! 0)
   \<and> u_id (example_users ! 0) = admin_id
   \<and> BlogPost_query_get (database admin_world) 1 = Inr (Some example_post)
   \<and> \<not> list_ex (\<lambda>q. p_id q \<noteq> 1 \<and> p_title q = ''T1'') (blog_posts (database admin_world))
   \<and> list_all2 (post_frame 1) [example_post]
        (blog_posts (database (snd (edit_post 1
           (Some \<lparr>form_title = ''T1'', form_subtitle = ''S2'',
                   form_img_url = ''http://x/y.png'', form_body = ''B1''\<rparr>) admin_world))))
   \<and> BlogPost_query_get (database (snd (edit_post 1
           (Some \<lparr>form_title = ''T1'', form_subtitle = ''S2'',
                   form_img_url = ''http://x/y.png'', form_body = ''B1''\<rparr>) admin_world))) 1
       = Inr (Some \<lparr>p_id = 1, p_author_id = Some 1, p_title = ''T1'', p_subtitle = ''S2'',
                    p_date = ''April 02, 2025'', p_body = ''B1'',
                    p_img_url = ''http://x/y.png''\<rparr>)
   \<and> comments (database (snd (edit_post 1
           (Some \<lparr>form_title = ''T1'', form_subtitle = ''S2'',
                   form_img_url = ''http://x/y.png'', form_body = ''B1''\<rparr>) admin_world)))
       = [example_comment]"
proof -
  have a: "current_user admin_world = Authenticated (example_users ! 0)"
    by (rule current_user_admin_world)
  have b: "u_id (example_users ! 0) = admin_id"
    by (simp add: example_users_def admin_id_def)
  have c: "BlogPost_query_get (database admin_world) 1 = Inr (Some example_post)"
    by (simp add: BlogPost_query_get_def sqlite_integer_def example_defs)
  have d: "\<not> list_ex (\<lambda>q. p_id q \<noteq> 1 \<and> p_title q = ''T1'') (blog_posts (database admin_world))"
    by (simp add: example_defs)
  have e: "blog_posts (database admin_world) = [example_post]"
    "comments (database admin_world) = [example_comment]"
    by (simp_all add: example_defs)
  from edit_post_frame
         [OF a b c,
           of "Some \<lparr>form_title = ''T1'', form_subtitle = ''S2'',
                      form_img_url = ''http://x/y.png'', form_body = ''B1''\<rparr>"]
       a b c d e
  show ?thesis
    by (simp add: example_post_def)
qed


end
